theory Spec2Isabelle
  imports Main
begin

section \<open>Text primitives of the source language\<close>

text \<open>
  The assistant is written in Python. Its texts are modelled as \<open>string\<close>, a list of
  8-bit characters: a character stands for the code point of the same number, so the
  model covers texts over the code points 0 to 255. Every marker the code looks for
  (the fences, \<open>#\<close>, \<open>$\<close>, the line feed, the command tokens) is ASCII.
\<close>

definition nl :: char where
  "nl = CHR 0x0A"

definition fence :: string where
  "fence = ''```''"

text \<open>
  \<open>str.isspace\<close> on one character, for the code points below 256: the ASCII controls
  9 to 13 and 28 to 31, the space, NEL (133) and the no-break space (160).
\<close>

definition isspace :: "char \<Rightarrow> bool" where
  "isspace c =
     (let n = (of_char c :: nat)
      in (9 \<le> n \<and> n \<le> 13) \<or> (28 \<le> n \<and> n \<le> 31) \<or> n = 32 \<or> n = 133 \<or> n = 160)"

text \<open>\<open>s.strip()\<close>: whitespace removed at both ends.\<close>

definition strip :: "string \<Rightarrow> string" where
  "strip s = rev (dropWhile isspace (rev (dropWhile isspace s)))"

text \<open>\<open>s.startswith(p)\<close> and \<open>s.endswith(p)\<close>.\<close>

definition startswith :: "string \<Rightarrow> string \<Rightarrow> bool" where
  "startswith s p = (take (length p) s = p)"

definition endswith :: "string \<Rightarrow> string \<Rightarrow> bool" where
  "endswith s p = startswith (rev s) (rev p)"

text \<open>
  \<open>s.split('\n')\<close>: the pieces between line feeds; the empty text gives one empty
  piece, so the result is never the empty list.
\<close>

fun split_nl :: "string \<Rightarrow> string list" where
  "split_nl [] = [[]]"
| "split_nl (c # cs) =
     (if c = nl then [] # split_nl cs
      else (case split_nl cs of [] \<Rightarrow> [[c]] | l # ls \<Rightarrow> (c # l) # ls))"

text \<open>\<open>p in s\<close> for texts: \<open>p\<close> occurs somewhere in \<open>s\<close>.\<close>

fun contains :: "string \<Rightarrow> string \<Rightarrow> bool" where
  "contains [] p = (p = [])"
| "contains (c # cs) p = (startswith (c # cs) p \<or> contains cs p)"

text \<open>
  \<open>s.replace(old, new)\<close> for a non-empty \<open>old\<close>: the occurrences are replaced from
  the left, without overlap. The fuel argument is the length of the text still to scan;
  each step consumes at least one character of it.
\<close>

fun replace_fuel :: "nat \<Rightarrow> string \<Rightarrow> string \<Rightarrow> string \<Rightarrow> string" where
  "replace_fuel 0 s old new = s"
| "replace_fuel (Suc n) [] old new = []"
| "replace_fuel (Suc n) (c # cs) old new =
     (if old \<noteq> [] \<and> startswith (c # cs) old
      then new @ replace_fuel (Suc n - length old) (drop (length old) (c # cs)) old new
      else c # replace_fuel n cs old new)"

definition replace :: "string \<Rightarrow> string \<Rightarrow> string \<Rightarrow> string" where
  "replace s old new = replace_fuel (length s) s old new"

section \<open>Code block extractor (utils.extract\_code\_blocks)\<close>

text \<open>
  Every pattern of the source has the shape \<open>opener(.*?)```\<close>, compiled with DOTALL, so
  the group matches any characters, line feeds included, and as few as possible.
  \<open>until_fence s\<close> is that group when the opener has just been read and \<open>s\<close> is the rest
  of the text: the text before the first closing fence, or \<open>None\<close> when no fence follows.
\<close>

fun until_fence :: "string \<Rightarrow> string option" where
  "until_fence [] = None"
| "until_fence (c # cs) =
     (if startswith (c # cs) fence then Some []
      else map_option ((#) c) (until_fence cs))"

text \<open>
  \<open>re.findall(pattern, text)\<close> followed by \<open>matches[0]\<close>: the regex engine tries the
  start positions from the left; the first position where the opener is read and a
  closing fence follows gives the first match. \<open>None\<close> is the empty list of matches.
\<close>

fun first_match :: "string \<Rightarrow> string \<Rightarrow> string option" where
  "first_match opener [] = None"
| "first_match opener (c # cs) =
     (if startswith (c # cs) opener
      then (case until_fence (drop (length opener) (c # cs)) of
              Some g \<Rightarrow> Some g
            | None \<Rightarrow> first_match opener cs)
      else first_match opener cs)"

definition bash_patterns :: "string list" where
  "bash_patterns =
     [''```bash'' @ [nl], ''```'' @ [nl] @ ''$ '', ''```bash'' @ [nl] @ ''$ '']"

definition python_patterns :: "string list" where
  "python_patterns = [''```python'' @ [nl], ''```py'' @ [nl]]"

text \<open>
  The loop over the patterns: the first pattern with a match contributes its first
  match, and the loop breaks.
\<close>

fun first_block :: "string list \<Rightarrow> string \<Rightarrow> string list" where
  "first_block [] text = []"
| "first_block (pattern # patterns) text =
     (case first_match pattern text of
        Some m \<Rightarrow> [m]
      | None \<Rightarrow> first_block patterns text)"

text \<open>
  The inner loop over \<open>command_lines\<close>: blank lines and comment lines are skipped, a
  leading \<open>$\<close> is removed, and the first line that is still non-empty becomes
  \<open>clean_command\<close>; \<open>None\<close> when the loop ends without a \<open>break\<close>.
\<close>

fun clean_command :: "string list \<Rightarrow> string option" where
  "clean_command [] = None"
| "clean_command (l # ls) =
     (let line = strip l
      in if line = [] \<or> startswith line ''#'' then clean_command ls
         else (let line2 = (if startswith line ''$'' then strip (drop 1 line) else line)
               in if line2 \<noteq> [] then Some line2 else clean_command ls))"

definition clean_bash_blocks :: "string list \<Rightarrow> string list" where
  "clean_bash_blocks bash_blocks =
     concat (map (\<lambda>block.
        (case clean_command (split_nl (strip block)) of
           Some c \<Rightarrow> (if c \<noteq> [] then [c] else [])
         | None \<Rightarrow> [])) bash_blocks)"

definition clean_python_blocks :: "string list \<Rightarrow> string list" where
  "clean_python_blocks python_blocks =
     map (\<lambda>block.
        (let code = strip block
         in if contains code ''**name**'' then replace code ''**name**'' ''__name__''
            else code)) python_blocks"

text \<open>The result is the pair (shell blocks, script blocks), in the source's order.\<close>

definition extract_code_blocks :: "string \<Rightarrow> string list \<times> string list" where
  "extract_code_blocks text =
     (clean_bash_blocks (first_block bash_patterns text),
      clean_python_blocks (first_block python_patterns text))"

section \<open>The environment of a turn\<close>

text \<open>
  A message is the dictionary \<open>{"role": ..., "content": ...}\<close> of the source.
\<close>

record message =
  role :: string
  content :: string

definition assistant_message :: "string \<Rightarrow> message" where
  "assistant_message c = \<lparr>role = ''assistant'', content = c\<rparr>"

definition user_message :: "string \<Rightarrow> message" where
  "user_message c = \<lparr>role = ''user'', content = c\<rparr>"

definition system_message :: "string \<Rightarrow> message" where
  "system_message c = \<lparr>role = ''system'', content = c\<rparr>"

text \<open>
  What the chat call can do: \<open>ollama.chat\<close> raises (\<open>ChatRaised\<close>, with the text of the
  exception), or it returns a stream. The stream yields chunks, each with a content part
  or without one, and then either ends or raises.
\<close>

datatype chat_outcome =
    ChatRaised string
  | ChatStream "string option list" "string option"

text \<open>The three answers of the prompt of \<open>execute_python_code\<close>.\<close>

datatype choice = Ejecutar | Guardar | Cancelar

text \<open>
  The collaborators of a turn, as functions of what the code passes to them. A result
  \<open>Inl e\<close> is an exception with text \<open>e\<close>. Retrieval (\<open>RAGSystem.get_relevant_context\<close>)
  catches its own exceptions and always returns a text. Within one user query every
  collaborator but the chat is called at most once, and the two chat calls receive
  histories of different lengths, so a function of the argument loses no behaviour.
  Console output is not modelled. Exceptions outside \<open>Exception\<close> (an interrupt from the
  keyboard, an exit requested by executed code) are not modelled either.
\<close>

record env =
  get_relevant_context :: "string \<Rightarrow> string"
  ollama_chat :: "message list \<Rightarrow> chat_outcome"
  ask_choice :: "string \<Rightarrow> string + choice"
  ask_filename :: "string \<Rightarrow> string + string"
  write_file :: "string \<Rightarrow> string \<Rightarrow> string option"
  exec_code :: "string \<Rightarrow> string + string"
  confirm_ask :: "string \<Rightarrow> string + bool"
  subprocess_run :: "string \<Rightarrow> string + (string \<times> string)"

text \<open>
  The calls a turn makes, in order: the turn engine itself (\<open>Call\<close>, with its three
  arguments), retrieval, the chat, the extractor, the prompt and the two actions of the
  script executor, the confirmation and the subprocess of the shell executor.
\<close>

datatype event =
    Call "message list" string bool
  | Retrieve string
  | Chat "message list"
  | Extract string
  | AskPython string
  | SaveFile string string
  | ExecPython string
  | ConfirmBash string
  | RunBash string

datatype py_error = IndexError

section \<open>Sandboxed executor (utils.execute\_bash\_command, utils.execute\_python\_code)\<close>

text \<open>A captured stream gets a final line feed when it is non-empty and lacks one.\<close>

definition ensure_newline :: "string \<Rightarrow> string" where
  "ensure_newline s = (if s \<noteq> [] \<and> \<not> endswith s [nl] then s @ [nl] else s)"

definition clean_bash_command :: "string \<Rightarrow> string" where
  "clean_bash_command command =
     (let c = strip command
      in if startswith c ''$'' then strip (drop 1 c) else c)"

text \<open>
  The result is the pair (stdout, stderr) of optional texts. The whole body is inside
  \<open>try\<close>: an exception of the confirmation or of the subprocess gives
  \<open>(None, str(e))\<close>. The warning about dangerous commands only prints.
\<close>

definition execute_bash_command ::
  "env \<Rightarrow> string \<Rightarrow> (string option \<times> string option) \<times> event list" where
  "execute_bash_command E command =
     (let c = clean_bash_command command
      in case confirm_ask E c of
           Inl e \<Rightarrow> ((None, Some e), [ConfirmBash c])
         | Inr False \<Rightarrow> ((None, None), [ConfirmBash c])
         | Inr True \<Rightarrow>
             (case subprocess_run E c of
                Inl e \<Rightarrow> ((None, Some e), [ConfirmBash c, RunBash c])
              | Inr (out, err) \<Rightarrow>
                  ((Some (ensure_newline out), Some (ensure_newline err)),
                   [ConfirmBash c, RunBash c])))"

text \<open>
  The result is \<open>Inr\<close> the returned text, or \<open>Inl e\<close> when a prompt raises: the prompts
  are outside every \<open>try\<close> of the function. The letter o with acute accent of the
  messages is the code point 243.
\<close>

definition execute_python_code :: "env \<Rightarrow> string \<Rightarrow> (string + string) \<times> event list" where
  "execute_python_code E code =
     (case ask_choice E code of
        Inl e \<Rightarrow> (Inl e, [AskPython code])
      | Inr Cancelar \<Rightarrow> (Inr [], [AskPython code])
      | Inr Guardar \<Rightarrow>
          (case ask_filename E code of
             Inl e \<Rightarrow> (Inl e, [AskPython code])
           | Inr filename \<Rightarrow>
               (case write_file E filename code of
                  None \<Rightarrow>
                    (Inr (''C'' @ [CHR 0xF3] @ ''digo guardado en '' @ filename),
                     [AskPython code, SaveFile filename code])
                | Some e \<Rightarrow>
                    (Inr (''Error al guardar el archivo: '' @ e),
                     [AskPython code, SaveFile filename code])))
      | Inr Ejecutar \<Rightarrow>
          (case exec_code E code of
             Inr result \<Rightarrow> (Inr result, [AskPython code, ExecPython code])
           | Inl e \<Rightarrow> (Inr (''Error: '' @ e), [AskPython code, ExecPython code])))"

section \<open>Conversation turn engine (AIAssistant.interact\_with\_model)\<close>

definition system_commands :: "string list" where
  "system_commands = [''/help'', ''/exit'', ''/ihtml'', ''/model'', ''/rag'', ''/clear_rag'']"

definition is_system_command :: "string \<Rightarrow> bool" where
  "is_system_command query = list_ex (startswith query) system_commands"

text \<open>
  The text put after the system message and the text put after the retrieved context.
  The code points 237 and 225 are the accented letters of the second one.
\<close>

definition context_header :: string where
  "context_header =
     [nl, nl] @ ''Contexto relevante para responder a la pregunta del usuario:'' @ [nl]"

definition context_footer :: string where
  "context_footer =
     [nl, nl] @ ''Utiliza este contexto para dar una respuesta precisa, pero no menciones expl''
     @ [CHR 0xED] @ ''citamente que est'' @ [CHR 0xE1] @ ''s usando contexto.''"

text \<open>
  The first part of the function, which computes \<open>current_messages\<close>: a copy of
  \<open>messages\<close>, with the message at index 0 replaced when retrieval was called and gave a
  non-empty context. \<open>messages[0]\<close> on an empty history raises IndexError, outside every
  \<open>try\<close>.
\<close>

definition current_messages ::
  "env \<Rightarrow> message list \<Rightarrow> string \<Rightarrow> bool \<Rightarrow> (py_error + message list) \<times> event list" where
  "current_messages E messages query processing_code =
     (if \<not> processing_code then
        (if \<not> is_system_command query then
           (let context = get_relevant_context E query
            in if context \<noteq> [] then
                 (case messages of
                    [] \<Rightarrow> (Inl IndexError, [Retrieve query])
                  | m # ms \<Rightarrow>
                      (Inr (system_message
                              (content m @ context_header @ context @ context_footer) # ms),
                       [Retrieve query]))
               else (Inr messages, [Retrieve query]))
         else (Inr messages, []))
      else (Inr messages, []))"

text \<open>\<open>full_response\<close>: the content parts of the chunks, concatenated.\<close>

definition full_response_of :: "string option list \<Rightarrow> string" where
  "full_response_of chunks = concat (map (\<lambda>c. case c of Some part \<Rightarrow> part | None \<Rightarrow> []) chunks)"

text \<open>
  The two texts fed back to the model. The code point 243 is the accented letter of the
  first one.
\<close>

definition python_execution_result :: "string \<Rightarrow> string" where
  "python_execution_result result =
     ''Resultado de la ejecuci'' @ [CHR 0xF3] @ ''n:'' @ [nl] @ result"

definition bash_execution_result :: "string \<Rightarrow> string option \<Rightarrow> string option \<Rightarrow> string" where
  "bash_execution_result command output error =
     ''Resultado de '' @ [CHR 0x27] @ command @ [CHR 0x27] @ '':'' @ [nl]
     @ (case output of Some out \<Rightarrow> out | None \<Rightarrow> [])
     @ (case error of Some err \<Rightarrow> err | None \<Rightarrow> [])"

definition new_messages :: "message list \<Rightarrow> string \<Rightarrow> string \<Rightarrow> message list" where
  "new_messages messages full_response execution_result =
     messages @ [assistant_message full_response, user_message execution_result]"

text \<open>
  The engine returns the history, or raises IndexError, together with the calls made.
  The body of the \<open>while\<close> loop is run once: each of its paths either returns or sets
  \<open>response_complete\<close>. The two recursive calls are those of the source, both with
  \<open>processing_code = True\<close> and both under \<open>not processing_code\<close>. An exception of
  \<open>execute_python_code\<close> is caught by the inner handler, which only prints; the
  function then returns the working history.
\<close>

function interact_with_model ::
  "env \<Rightarrow> message list \<Rightarrow> string \<Rightarrow> bool \<Rightarrow> (py_error + message list) \<times> event list" where
  "interact_with_model E messages query processing_code =
     (case current_messages E messages query processing_code of
        (Inl err, t0) \<Rightarrow> (Inl err, Call messages query processing_code # t0)
      | (Inr current, t0) \<Rightarrow>
          (let t1 = Call messages query processing_code # t0 @ [Chat current]
           in case ollama_chat E current of
                ChatRaised e \<Rightarrow>
                  (Inr (messages @ [assistant_message (''Error conectando con Ollama: '' @ e)]),
                   t1)
              | ChatStream chunks (Some e) \<Rightarrow>
                  (Inr (current @ [assistant_message (''Error: '' @ e)]), t1)
              | ChatStream chunks None \<Rightarrow>
                  (let full_response = full_response_of chunks;
                       history = current @ [assistant_message full_response]
                   in if processing_code then (Inr history, t1)
                      else
                        (case extract_code_blocks full_response of
                           (bash_blocks, python_blocks) \<Rightarrow>
                             (let t2 = t1 @ [Extract full_response]
                              in case (case python_blocks of
                                         [] \<Rightarrow> (Inr [], [])
                                       | code # _ \<Rightarrow> execute_python_code E code) of
                                   (Inl e, tp) \<Rightarrow> (Inr history, t2 @ tp)
                                 | (Inr result, tp) \<Rightarrow>
                                     if result \<noteq> [] then
                                       (let execution_result = python_execution_result result
                                        in case interact_with_model E
                                                  (new_messages messages full_response
                                                     execution_result)
                                                  execution_result True of
                                             (r, tr) \<Rightarrow> (r, t2 @ tp @ tr))
                                     else
                                       (case bash_blocks of
                                          [] \<Rightarrow> (Inr history, t2 @ tp)
                                        | command # _ \<Rightarrow>
                                            (case execute_bash_command E command of
                                               ((output, error), tb) \<Rightarrow>
                                                 if output \<noteq> None \<or> error \<noteq> None then
                                                   (let execution_result =
                                                          bash_execution_result command output error
                                                    in case interact_with_model E
                                                              (new_messages messages full_response
                                                                 execution_result)
                                                              execution_result True of
                                                         (r, tr) \<Rightarrow> (r, t2 @ tp @ tb @ tr))
                                                 else (Inr history, t2 @ tp @ tb))))))))"
  by pat_completeness auto
termination
  by (relation "measure (\<lambda>(E, messages, query, processing_code). if processing_code then 0 else 1)")
     auto

declare interact_with_model.simps [simp del]

text \<open>
  The session driver (\<open>AIAssistant.run\<close>) on an ordinary query: the user message is
  appended to the session history, and the history the engine returns becomes the
  session history.
\<close>

definition run_query ::
  "env \<Rightarrow> message list \<Rightarrow> string \<Rightarrow> (py_error + message list) \<times> event list" where
  "run_query E history user_input =
     interact_with_model E (history @ [user_message user_input]) user_input False"

section \<open>Observations on the calls of a turn\<close>

fun is_call :: "event \<Rightarrow> bool" where
  "is_call (Call _ _ _) = True"
| "is_call _ = False"

fun is_chat :: "event \<Rightarrow> bool" where
  "is_chat (Chat _) = True"
| "is_chat _ = False"

fun is_retrieve :: "event \<Rightarrow> bool" where
  "is_retrieve (Retrieve _) = True"
| "is_retrieve _ = False"

fun is_extract :: "event \<Rightarrow> bool" where
  "is_extract (Extract _) = True"
| "is_extract _ = False"

fun is_python :: "event \<Rightarrow> bool" where
  "is_python (AskPython _) = True"
| "is_python (SaveFile _ _) = True"
| "is_python (ExecPython _) = True"
| "is_python _ = False"

fun is_bash :: "event \<Rightarrow> bool" where
  "is_bash (ConfirmBash _) = True"
| "is_bash (RunBash _) = True"
| "is_bash _ = False"

text \<open>The calls with an effect outside the conversation: a file written, code run.\<close>

fun is_execution :: "event \<Rightarrow> bool" where
  "is_execution (SaveFile _ _) = True"
| "is_execution (ExecPython _) = True"
| "is_execution (RunBash _) = True"
| "is_execution _ = False"

text \<open>The number of events of a kind in a list of calls.\<close>

definition count_events :: "(event \<Rightarrow> bool) \<Rightarrow> event list \<Rightarrow> nat" where
  "count_events P t = length (filter P t)"

section \<open>Shell block normalisation, as a description\<close>

text \<open>
  The words used for the lines of a block: a line is blank when nothing is left of it
  after stripping, a comment when its stripped form begins with \<open>#\<close>. The prompt
  marker is a leading \<open>$\<close> of the stripped line; it is removed together with the
  whitespace after it.
\<close>

definition is_blank :: "string \<Rightarrow> bool" where
  "is_blank l = (strip l = [])"

definition is_comment :: "string \<Rightarrow> bool" where
  "is_comment l = startswith (strip l) ''#''"

definition strip_prompt :: "string \<Rightarrow> string" where
  "strip_prompt l = (let line = strip l in if startswith line ''$'' then strip (drop 1 line) else line)"

text \<open>
  The normalisation in the words of the specification: the first line that is neither
  blank nor a comment, with the prompt marker stripped.
\<close>

definition first_command_line_spec :: "string list \<Rightarrow> string option" where
  "first_command_line_spec ls =
     map_option strip_prompt (List.find (\<lambda>l. \<not> is_blank l \<and> \<not> is_comment l) ls)"

text \<open>
  The same with one more condition on the line: something is left of it once the
  prompt marker is stripped.
\<close>

definition actionable :: "string \<Rightarrow> bool" where
  "actionable l = (\<not> is_blank l \<and> \<not> is_comment l \<and> strip_prompt l \<noteq> [])"

definition first_actionable_line :: "string list \<Rightarrow> string option" where
  "first_actionable_line ls = map_option strip_prompt (List.find actionable ls)"

section \<open>Sample environments\<close>

text \<open>
  An environment with nothing indexed, a model that answers with the empty text, and a
  user who cancels scripts and declines commands. The samples below change single
  collaborators of it.
\<close>

definition quiet_env :: env where
  "quiet_env =
     \<lparr>get_relevant_context = (\<lambda>query. []),
      ollama_chat = (\<lambda>history. ChatStream [] None),
      ask_choice = (\<lambda>code. Inr Cancelar),
      ask_filename = (\<lambda>code. Inr ''script.py''),
      write_file = (\<lambda>filename code. None),
      exec_code = (\<lambda>code. Inr []),
      confirm_ask = (\<lambda>command. Inr False),
      subprocess_run = (\<lambda>command. Inr ([], []))\<rparr>"

text \<open>A model that answers every history with the given text, in one chunk.\<close>

definition answering :: "string \<Rightarrow> env \<Rightarrow> env" where
  "answering response E = E\<lparr>ollama_chat := (\<lambda>history. ChatStream [Some response] None)\<rparr>"

text \<open>A text with one fenced block of the given language tag.\<close>

definition fenced :: "string \<Rightarrow> string \<Rightarrow> string" where
  "fenced tag body = fence @ tag @ [nl] @ body @ [nl] @ fence"

text \<open>A model server that cannot be reached: the chat call raises.\<close>

definition unreachable :: "string \<Rightarrow> env \<Rightarrow> env" where
  "unreachable e E = E\<lparr>ollama_chat := (\<lambda>history. ChatRaised e)\<rparr>"

text \<open>A user who confirms every command, and a shell that prints the given texts.\<close>

definition confirming :: "string \<Rightarrow> string \<Rightarrow> env \<Rightarrow> env" where
  "confirming out err E =
     E\<lparr>confirm_ask := (\<lambda>command. Inr True), subprocess_run := (\<lambda>command. Inr (out, err))\<rparr>"

text \<open>A user who gives the same answer at every script prompt.\<close>

definition choosing :: "choice \<Rightarrow> env \<Rightarrow> env" where
  "choosing c E = E\<lparr>ask_choice := (\<lambda>code. Inr c)\<rparr>"

text \<open>Executed scripts print the given text.\<close>

definition printing :: "string \<Rightarrow> env \<Rightarrow> env" where
  "printing out E = E\<lparr>exec_code := (\<lambda>code. Inr out)\<rparr>"

text \<open>An index that returns the given context for every query.\<close>

definition retrieving :: "string \<Rightarrow> env \<Rightarrow> env" where
  "retrieving context E = E\<lparr>get_relevant_context := (\<lambda>query. context)\<rparr>"

text \<open>The session history before the first query, with a short system text.\<close>

definition session_start :: "message list" where
  "session_start = [system_message ''Eres un asistente AI'']"

text \<open>A response with a script block followed by a shell block.\<close>

definition both_blocks :: string where
  "both_blocks = fenced ''python'' ''print(1)'' @ [nl] @ fenced ''bash'' ''ls''"

text \<open>
  Three responses with a shell block: a bare prompt marker on the first line, the
  example of the specification, and a block with a comment only.
\<close>

definition bare_prompt_block :: string where
  "bare_prompt_block = fenced ''bash'' (''$'' @ [nl] @ ''ls'')"

definition spec_example :: string where
  "spec_example = ''```bash'' @ [nl] @ ''# comment'' @ [nl] @ ''$ ls -la'' @ [nl] @ ''```''"

definition comment_only_block :: string where
  "comment_only_block = fenced ''bash'' (''# nada que ejecutar'' @ [nl])"

text \<open>A model server whose stream raises at the first read.\<close>

definition breaking_stream :: "string \<Rightarrow> env \<Rightarrow> env" where
  "breaking_stream e E = E\<lparr>ollama_chat := (\<lambda>history. ChatStream [] (Some e))\<rparr>"

section \<open>Basic facts about the engine\<close>

text \<open>
  A turn entered with \<open>processing_code = True\<close>: one chat call on the history as it is,
  and a result that depends on the response only through the appended message.
\<close>

lemma interact_with_model_processing_code:
  "interact_with_model E m q True =
    ((case ollama_chat E m of
        ChatRaised e \<Rightarrow> Inr (m @ [assistant_message (''Error conectando con Ollama: '' @ e)])
      | ChatStream chunks (Some e) \<Rightarrow> Inr (m @ [assistant_message (''Error: '' @ e)])
      | ChatStream chunks None \<Rightarrow> Inr (m @ [assistant_message (full_response_of chunks)])),
     [Call m q True, Chat m])"
  by (simp add: interact_with_model.simps [of E m q True] current_messages_def
      split: chat_outcome.splits option.splits)

lemmas interact_with_model_top =
  interact_with_model.simps [of _ _ _ False, unfolded interact_with_model_processing_code,
    simplified]

lemma execute_python_code_events:
  "filter is_call (snd (execute_python_code E c)) = []"
  "filter is_chat (snd (execute_python_code E c)) = []"
  "filter is_bash (snd (execute_python_code E c)) = []"
  "filter is_retrieve (snd (execute_python_code E c)) = []"
  "filter is_extract (snd (execute_python_code E c)) = []"
  by (simp_all add: execute_python_code_def split: sum.splits choice.splits option.splits)

lemma execute_bash_command_events:
  "filter is_call (snd (execute_bash_command E c)) = []"
  "filter is_chat (snd (execute_bash_command E c)) = []"
  "filter is_python (snd (execute_bash_command E c)) = []"
  "filter is_retrieve (snd (execute_bash_command E c)) = []"
  "filter is_extract (snd (execute_bash_command E c)) = []"
  by (simp_all add: execute_bash_command_def Let_def split: sum.splits bool.splits prod.splits)

lemma current_messages_events:
  "filter is_call (snd (current_messages E m q pc)) = []"
  "filter is_chat (snd (current_messages E m q pc)) = []"
  "filter is_bash (snd (current_messages E m q pc)) = []"
  "filter is_python (snd (current_messages E m q pc)) = []"
  "filter is_extract (snd (current_messages E m q pc)) = []"
  by (simp_all add: current_messages_def Let_def split: list.splits)

lemma count_chat_top:
  "count_events is_chat (snd (interact_with_model E messages query False)) \<le> 2"
  by (simp add: interact_with_model_top count_events_def Let_def case_prod_unfold
      execute_python_code_events execute_bash_command_events current_messages_events
      split: sum.splits chat_outcome.splits option.splits list.splits)

lemma count_call_top:
  "count_events is_call (snd (interact_with_model E messages query False)) \<le> 2"
  by (simp add: interact_with_model_top count_events_def Let_def case_prod_unfold
      execute_python_code_events execute_bash_command_events current_messages_events
      split: sum.splits chat_outcome.splits option.splits list.splits)

section \<open>Recursion bound\<close>

text \<open>
  Claim C1. A turn entered with \<open>processing_code = True\<close> makes exactly one call of the
  model on the history it was given and nothing else: no extraction, no execution and
  no further call of the engine, whatever the response contains. Hence a turn entered
  with either value of the flag enters the engine at most twice and calls the model at
  most twice.
\<close>

theorem recursion_depth_bounded:
  "snd (interact_with_model E messages query True) = [Call messages query True, Chat messages]
   \<and> count_events is_extract (snd (interact_with_model E messages query True)) = 0
   \<and> count_events is_call (snd (interact_with_model E messages query processing_code)) \<le> 2
   \<and> count_events is_chat (snd (interact_with_model E messages query processing_code)) \<le> 2"
proof (cases processing_code)
  case True
  then show ?thesis
    by (simp add: interact_with_model_processing_code count_events_def)
next
  case False
  then show ?thesis
    using count_chat_top [of E messages query] count_call_top [of E messages query]
    by (simp add: interact_with_model_processing_code count_events_def)
qed

theorem recursion_depth_bounded_witness:
  "snd (interact_with_model (answering (fenced ''python'' ''print(1)'') quiet_env)
          session_start ''hola'' True)
     = [Call session_start ''hola'' True, Chat session_start]
   \<and> count_events is_call
        (snd (interact_with_model (printing ''1'' (choosing Ejecutar
                (answering (fenced ''python'' ''print(1)'') quiet_env)))
              session_start ''hola'' False)) \<le> 2"
  using recursion_depth_bounded [of "answering (fenced ''python'' ''print(1)'') quiet_env"
      session_start "''hola''" True]
    recursion_depth_bounded [of "printing ''1'' (choosing Ejecutar
                (answering (fenced ''python'' ''print(1)'') quiet_env))"
      session_start "''hola''" False]
  by simp

section \<open>Transport failure\<close>

text \<open>
  Claim C6 says that a chat transport that fails before any token arrives ends the turn
  with the input history followed by one assistant message carrying the error, without
  retry, extraction or recursion. The transport can fail at two places before a token:
  the chat call raises, or the stream it returned raises when it is read. The theorem
  states what the code does at both. When the call raises, the inner handler returns
  the input history and one assistant message with the text of the error. When the
  stream raises, the outer handler appends the assistant message to the working
  history and the function returns that: the history with the augmented system message
  whenever the augmentation step replaced it, which is then not the input history
  followed by one message. In both cases the calls made are the entry of the engine,
  the retrieval of the augmentation step if any, and the single chat call.
\<close>

theorem transport_failure_outcome:
  assumes "current_messages E messages query processing_code = (Inr current, t0)"
  shows "(ollama_chat E current = ChatRaised e \<longrightarrow>
            interact_with_model E messages query processing_code =
              (Inr (messages
                    @ [\<lparr>role = ''assistant'',
                        content = ''Error conectando con Ollama: '' @ e\<rparr>]),
               Call messages query processing_code # t0 @ [Chat current]))
         \<and> (ollama_chat E current = ChatStream chunks (Some e) \<longrightarrow>
            interact_with_model E messages query processing_code =
              (Inr (current @ [\<lparr>role = ''assistant'', content = ''Error: '' @ e\<rparr>]),
               Call messages query processing_code # t0 @ [Chat current])
            \<and> (current \<noteq> messages \<longrightarrow>
                 fst (interact_with_model E messages query processing_code)
                   \<noteq> Inr (messages @ [reply])))
         \<and> (ollama_chat E current = ChatRaised e
              \<or> ollama_chat E current = ChatStream chunks (Some e) \<longrightarrow>
            count_events is_chat (snd (interact_with_model E messages query processing_code)) = 1
            \<and> count_events is_call (snd (interact_with_model E messages query processing_code)) = 1
            \<and> count_events is_extract
                 (snd (interact_with_model E messages query processing_code)) = 0
            \<and> count_events is_python
                 (snd (interact_with_model E messages query processing_code)) = 0
            \<and> count_events is_bash
                 (snd (interact_with_model E messages query processing_code)) = 0)"
proof -
  have t0: "snd (current_messages E messages query processing_code) = t0"
    using assms by simp
  have quiet: "filter is_chat t0 = []" "filter is_call t0 = []" "filter is_extract t0 = []"
    "filter is_python t0 = []" "filter is_bash t0 = []"
    using current_messages_events [of E messages query processing_code] by (simp_all add: t0)
  have raised: "interact_with_model E messages query processing_code =
              (Inr (messages
                    @ [\<lparr>role = ''assistant'',
                        content = ''Error conectando con Ollama: '' @ e\<rparr>]),
               Call messages query processing_code # t0 @ [Chat current])"
    if "ollama_chat E current = ChatRaised e"
    using assms that
    by (simp add: interact_with_model.simps [of E messages query processing_code]
        assistant_message_def)
  have broken: "interact_with_model E messages query processing_code =
              (Inr (current @ [\<lparr>role = ''assistant'', content = ''Error: '' @ e\<rparr>]),
               Call messages query processing_code # t0 @ [Chat current])"
    if "ollama_chat E current = ChatStream chunks (Some e)"
    using assms that
    by (simp add: interact_with_model.simps [of E messages query processing_code]
        assistant_message_def)
  have differs: "fst (interact_with_model E messages query processing_code)
                   \<noteq> Inr (messages @ [reply])"
    if "ollama_chat E current = ChatStream chunks (Some e)" "current \<noteq> messages"
    using broken [OF that(1)] that(2) by simp
  have counts: "count_events is_chat (snd (interact_with_model E messages query processing_code)) = 1
            \<and> count_events is_call (snd (interact_with_model E messages query processing_code)) = 1
            \<and> count_events is_extract
                 (snd (interact_with_model E messages query processing_code)) = 0
            \<and> count_events is_python
                 (snd (interact_with_model E messages query processing_code)) = 0
            \<and> count_events is_bash
                 (snd (interact_with_model E messages query processing_code)) = 0"
    if "ollama_chat E current = ChatRaised e
              \<or> ollama_chat E current = ChatStream chunks (Some e)"
    using that raised broken by (auto simp add: count_events_def quiet)
  show ?thesis
    using raised broken differs counts by blast
qed

theorem transport_failure_outcome_witness:
  "interact_with_model (breaking_stream ''connection refused'' (retrieving ''ctx'' quiet_env))
     (session_start @ [user_message ''hola'']) ''hola'' False =
     (Inr [\<lparr>role = ''system'',
             content = ''Eres un asistente AI'' @ context_header @ ''ctx'' @ context_footer\<rparr>,
           \<lparr>role = ''user'', content = ''hola''\<rparr>,
           \<lparr>role = ''assistant'', content = ''Error: connection refused''\<rparr>],
      [Call (session_start @ [user_message ''hola'']) ''hola'' False, Retrieve ''hola'',
       Chat [\<lparr>role = ''system'',
               content = ''Eres un asistente AI'' @ context_header @ ''ctx'' @ context_footer\<rparr>,
             \<lparr>role = ''user'', content = ''hola''\<rparr>]])
   \<and> fst (interact_with_model
            (breaking_stream ''connection refused'' (retrieving ''ctx'' quiet_env))
            (session_start @ [user_message ''hola'']) ''hola'' False)
       \<noteq> Inr (session_start @ [user_message ''hola'',
                 \<lparr>role = ''assistant'', content = ''Error: connection refused''\<rparr>])
   \<and> interact_with_model (unreachable ''connection refused'' (retrieving ''ctx'' quiet_env))
       (session_start @ [user_message ''hola'']) ''hola'' False =
       (Inr [\<lparr>role = ''system'', content = ''Eres un asistente AI''\<rparr>,
             \<lparr>role = ''user'', content = ''hola''\<rparr>,
             \<lparr>role = ''assistant'',
               content = ''Error conectando con Ollama: connection refused''\<rparr>],
        [Call (session_start @ [user_message ''hola'']) ''hola'' False, Retrieve ''hola'',
         Chat [\<lparr>role = ''system'',
                 content = ''Eres un asistente AI'' @ context_header @ ''ctx'' @ context_footer\<rparr>,
               \<lparr>role = ''user'', content = ''hola''\<rparr>]])"
proof -
  let ?B = "breaking_stream ''connection refused'' (retrieving ''ctx'' quiet_env)"
  let ?U = "unreachable ''connection refused'' (retrieving ''ctx'' quiet_env)"
  let ?current = "[\<lparr>role = ''system'',
               content = ''Eres un asistente AI'' @ context_header @ ''ctx'' @ context_footer\<rparr>,
             \<lparr>role = ''user'', content = ''hola''\<rparr>]"
  have curB: "current_messages ?B (session_start @ [user_message ''hola'']) ''hola'' False
                = (Inr ?current, [Retrieve ''hola''])"
    by (simp add: current_messages_def is_system_command_def system_commands_def startswith_def
        breaking_stream_def retrieving_def quiet_env_def session_start_def system_message_def
        user_message_def)
  have curU: "current_messages ?U (session_start @ [user_message ''hola'']) ''hola'' False
                = (Inr ?current, [Retrieve ''hola''])"
    by (simp add: current_messages_def is_system_command_def system_commands_def startswith_def
        unreachable_def retrieving_def quiet_env_def session_start_def system_message_def
        user_message_def)
  have chatB: "ollama_chat ?B ?current = ChatStream [] (Some ''connection refused'')"
    by (simp add: breaking_stream_def retrieving_def quiet_env_def)
  have chatU: "ollama_chat ?U ?current = ChatRaised ''connection refused''"
    by (simp add: unreachable_def retrieving_def quiet_env_def)
  have ne: "?current \<noteq> session_start @ [user_message ''hola'']"
    by (simp add: session_start_def system_message_def context_header_def)
  note B = transport_failure_outcome [OF curB, of "''connection refused''" "[]"
      "\<lparr>role = ''assistant'', content = ''Error: connection refused''\<rparr>"]
  note U = transport_failure_outcome [OF curU, of "''connection refused''" "[]"
      "\<lparr>role = ''assistant'', content = ''Error: connection refused''\<rparr>"]
  have b1: "interact_with_model ?B (session_start @ [user_message ''hola'']) ''hola'' False =
     (Inr (?current @ [\<lparr>role = ''assistant'', content = ''Error: '' @ ''connection refused''\<rparr>]),
      Call (session_start @ [user_message ''hola'']) ''hola'' False # [Retrieve ''hola'']
      @ [Chat ?current])"
    using B chatB by blast
  have b2: "fst (interact_with_model ?B (session_start @ [user_message ''hola'']) ''hola'' False)
       \<noteq> Inr ((session_start @ [user_message ''hola''])
              @ [\<lparr>role = ''assistant'', content = ''Error: connection refused''\<rparr>])"
    using B chatB ne by blast
  have u1: "interact_with_model ?U (session_start @ [user_message ''hola'']) ''hola'' False =
       (Inr ((session_start @ [user_message ''hola''])
             @ [\<lparr>role = ''assistant'',
                 content = ''Error conectando con Ollama: '' @ ''connection refused''\<rparr>]),
        Call (session_start @ [user_message ''hola'']) ''hola'' False # [Retrieve ''hola'']
        @ [Chat ?current])"
    using U chatU by blast
  show ?thesis
    using b1 b2 u1 by (simp add: session_start_def system_message_def user_message_def)
qed

section \<open>The declined sentinel of the shell executor\<close>

text \<open>
  Claim C8. When the user declines, \<open>execute_bash_command\<close> returns \<open>(None, None)\<close>
  and runs no subprocess. A confirmed execution that prints nothing on either stream
  returns the pair of two empty texts, which is a different value; and \<open>(None, None)\<close>
  is returned in no other case than the user declining.
\<close>

theorem declined_sentinel_distinguishable:
  assumes "confirm_ask E (clean_bash_command command) = Inr False"
    and "confirm_ask E' (clean_bash_command command) = Inr True"
    and "subprocess_run E' (clean_bash_command command) = Inr ([], [])"
  shows "execute_bash_command E command =
           ((None, None), [ConfirmBash (clean_bash_command command)])
         \<and> fst (execute_bash_command E' command) = (Some [], Some [])
         \<and> fst (execute_bash_command E command) \<noteq> fst (execute_bash_command E' command)
         \<and> (fst (execute_bash_command E'' command) = (None, None)
              \<longleftrightarrow> confirm_ask E'' (clean_bash_command command) = Inr False)"
  using assms
  by (simp add: execute_bash_command_def Let_def ensure_newline_def
      split: sum.splits bool.splits prod.splits)

theorem declined_sentinel_distinguishable_witness:
  "execute_bash_command quiet_env ''$ ls -la'' = ((None, None), [ConfirmBash ''ls -la''])
   \<and> fst (execute_bash_command (confirming [] [] quiet_env) ''$ ls -la'') = (Some [], Some [])
   \<and> fst (execute_bash_command quiet_env ''$ ls -la'')
       \<noteq> fst (execute_bash_command (confirming [] [] quiet_env) ''$ ls -la'')"
proof -
  have c: "clean_bash_command ''$ ls -la'' = ''ls -la''"
    by (simp add: clean_bash_command_def strip_def startswith_def isspace_def)
  show ?thesis
    using declined_sentinel_distinguishable
      [of quiet_env "''$ ls -la''" "confirming [] [] quiet_env"]
    by (simp add: c quiet_env_def confirming_def)
qed

section \<open>System commands bypass retrieval\<close>

text \<open>
  Claim C9. For a query that is one of the command tokens or begins with one, the
  augmentation step calls no retrieval and yields the input history itself; the chat
  receives that history, and no retrieval is called anywhere in the turn.
\<close>

theorem system_command_bypasses_retrieval:
  assumes "cmd \<in> set system_commands"
  shows "current_messages E messages (cmd @ rest) processing_code = (Inr messages, [])
         \<and> count_events is_retrieve
             (snd (interact_with_model E messages (cmd @ rest) processing_code)) = 0
         \<and> take 2 (snd (interact_with_model E messages (cmd @ rest) processing_code))
             = [Call messages (cmd @ rest) processing_code, Chat messages]"
proof -
  have sys: "is_system_command (cmd @ rest)"
    using assms by (auto simp: is_system_command_def list_ex_iff startswith_def intro!: bexI [of _ cmd])
  have cur: "current_messages E messages (cmd @ rest) processing_code = (Inr messages, [])"
    by (simp add: current_messages_def sys)
  show ?thesis
  proof (cases processing_code)
    case True
    then show ?thesis
      using cur by (simp add: interact_with_model_processing_code count_events_def)
  next
    case False
    have cur': "current_messages E messages (cmd @ rest) False = (Inr messages, [])"
      using cur False by simp
    have "count_events is_retrieve (snd (interact_with_model E messages (cmd @ rest) False)) = 0
        \<and> take 2 (snd (interact_with_model E messages (cmd @ rest) False))
             = [Call messages (cmd @ rest) False, Chat messages]"
      by (simp add: interact_with_model_top cur' count_events_def Let_def case_prod_unfold
          execute_python_code_events execute_bash_command_events
          split: sum.splits chat_outcome.splits option.splits list.splits)
    then show ?thesis
      using cur False by simp
  qed
qed

theorem system_command_bypasses_retrieval_witness:
  "current_messages (retrieving ''ctx'' quiet_env) session_start ''/help'' False
     = (Inr session_start, [])
   \<and> current_messages (retrieving ''ctx'' quiet_env) session_start ''/model llama3'' False
     = (Inr session_start, [])"
  using system_command_bypasses_retrieval
      [of "''/help''" "retrieving ''ctx'' quiet_env" session_start "[]" False]
    system_command_bypasses_retrieval
      [of "''/model''" "retrieving ''ctx'' quiet_env" session_start "'' llama3''" False]
  by (simp add: system_commands_def)

section \<open>The paths of a top-level turn\<close>

text \<open>
  The three ways a top-level turn with a complete response ends: recursion on the result
  of the script, recursion on the result of the command, or return of the working
  history.
\<close>

lemma interact_python_recursion:
  assumes "current_messages E messages query False = (Inr current, t0)"
    and "ollama_chat E current = ChatStream chunks None"
    and "extract_code_blocks (full_response_of chunks) = (bash_blocks, code # ps)"
    and "execute_python_code E code = (Inr result, tp)"
    and "result \<noteq> []"
  shows "interact_with_model E messages query False =
           (fst (interact_with_model E
                   (new_messages messages (full_response_of chunks) (python_execution_result result))
                   (python_execution_result result) True),
            Call messages query False # t0 @ [Chat current, Extract (full_response_of chunks)] @ tp
            @ snd (interact_with_model E
                   (new_messages messages (full_response_of chunks) (python_execution_result result))
                   (python_execution_result result) True))"
  using assms
  by (simp add: interact_with_model.simps [of E messages query False] Let_def case_prod_unfold)


lemma interact_final:
  assumes "current_messages E messages query False = (Inr current, t0)"
    and "ollama_chat E current = ChatStream chunks None"
    and "extract_code_blocks (full_response_of chunks) = (bash_blocks, python_blocks)"
    and "python_blocks = [] \<and> tp = [] 
         \<or> (\<exists>code ps. python_blocks = code # ps \<and> execute_python_code E code = (Inr [], tp))"
    and "bash_blocks = [] \<and> tb = []
         \<or> (\<exists>command bs. bash_blocks = command # bs
               \<and> execute_bash_command E command = ((None, None), tb))"
  shows "interact_with_model E messages query False =
           (Inr (current @ [assistant_message (full_response_of chunks)]),
            Call messages query False # t0 @ [Chat current, Extract (full_response_of chunks)]
            @ tp @ tb)"
  using assms
  by (auto simp add: interact_with_model.simps [of E messages query False] Let_def case_prod_unfold)

text \<open>The extractor on the sample responses.\<close>

lemma extract_python_sample:
  "extract_code_blocks (fenced ''python'' ''print(1)'') = ([], [''print(1)''])"
  by code_simp

lemma extract_both_sample:
  "extract_code_blocks both_blocks = ([''ls''], [''print(1)''])"
  by code_simp

lemma extract_plain_sample:
  "extract_code_blocks ''Hola.'' = ([], [])"
  by code_simp

lemma full_response_single: "full_response_of [Some r] = r"
  by (simp add: full_response_of_def)

section \<open>Recursion on an execution result\<close>



section \<open>Script before shell\<close>

text \<open>The script executor prompts before anything else; cancel and decline do nothing.\<close>

lemma execute_python_code_asks_first:
  "\<exists>post. snd (execute_python_code E code) = AskPython code # post"
  by (simp add: execute_python_code_def split: sum.splits choice.splits option.splits)

lemma execute_python_code_cancel:
  "ask_choice E code = Inr Cancelar \<Longrightarrow> execute_python_code E code = (Inr [], [AskPython code])"
  by (simp add: execute_python_code_def)

lemma execute_bash_command_declined:
  "confirm_ask E (clean_bash_command command) = Inr False \<Longrightarrow>
   execute_bash_command E command = ((None, None), [ConfirmBash (clean_bash_command command)])"
  by (simp add: execute_bash_command_def)

text \<open>The sample environments on the sample session.\<close>

lemma sample_current:
  "current_messages (printing out (choosing c (answering r quiet_env)))
     (session_start @ [user_message ''hola'']) ''hola'' False
     = (Inr (session_start @ [user_message ''hola'']), [Retrieve ''hola''])"
  by (simp add: current_messages_def is_system_command_def system_commands_def startswith_def
      printing_def choosing_def answering_def quiet_env_def)

lemma sample_chat:
  "ollama_chat (printing out (choosing c (answering r quiet_env))) h = ChatStream [Some r] None"
  by (simp add: printing_def choosing_def answering_def quiet_env_def)

text \<open>
  Claim C4. When the response yields both a script block and a shell block, the first
  call after extraction is the prompt of the script executor, and no call of the shell
  executor comes before it. If the script then returns a non-empty text, the engine
  recurses at once on that result, and the whole turn contains no call of the shell
  executor.
\<close>

theorem script_before_shell:
  assumes "current_messages E messages query False = (Inr current, t0)"
    and "ollama_chat E current = ChatStream chunks None"
    and "extract_code_blocks (full_response_of chunks) = (command # bs, code # ps)"
  shows "take (length t0 + 4) (snd (interact_with_model E messages query False))
           = Call messages query False # t0
             @ [Chat current, Extract (full_response_of chunks), AskPython code]
         \<and> count_events is_bash
              (Call messages query False # t0 @ [Chat current, Extract (full_response_of chunks)]) = 0
         \<and> (\<forall>result. fst (execute_python_code E code) = Inr result \<and> result \<noteq> [] \<longrightarrow>
               interact_with_model E messages query False
                 = (fst (interact_with_model E
                          (messages @ [assistant_message (full_response_of chunks),
                                       user_message (python_execution_result result)])
                          (python_execution_result result) True),
                    Call messages query False # t0
                    @ [Chat current, Extract (full_response_of chunks)]
                    @ snd (execute_python_code E code)
                    @ [Call (messages @ [assistant_message (full_response_of chunks),
                                         user_message (python_execution_result result)])
                         (python_execution_result result) True,
                       Chat (messages @ [assistant_message (full_response_of chunks),
                                         user_message (python_execution_result result)])])
               \<and> count_events is_bash (snd (interact_with_model E messages query False)) = 0)"
proof -
  obtain post where post: "snd (execute_python_code E code) = AskPython code # post"
    using execute_python_code_asks_first by blast
  have t0: "snd (current_messages E messages query False) = t0"
    using assms(1) by simp
  have quiet0: "filter is_bash t0 = []"
    using current_messages_events(3) [of E messages query False] by (simp add: t0)
  have "\<exists>rest. snd (interact_with_model E messages query False)
          = (Call messages query False # t0
             @ [Chat current, Extract (full_response_of chunks), AskPython code]) @ rest"
    using assms post
    by (simp add: interact_with_model_top Let_def case_prod_unfold
          split: sum.splits)
  then obtain rest where split: "snd (interact_with_model E messages query False)
          = (Call messages query False # t0
             @ [Chat current, Extract (full_response_of chunks), AskPython code]) @ rest"
    by blast
  have len: "length (Call messages query False # t0
             @ [Chat current, Extract (full_response_of chunks), AskPython code])
               = length t0 + 4"
    by simp
  have first: "take (length t0 + 4) (snd (interact_with_model E messages query False))
           = Call messages query False # t0
             @ [Chat current, Extract (full_response_of chunks), AskPython code]"
    unfolding split len [symmetric] by (rule append_eq_conv_conj [THEN iffD1, THEN conjunct1, symmetric]) (rule refl)
  have second: "count_events is_bash
      (Call messages query False # t0 @ [Chat current, Extract (full_response_of chunks)]) = 0"
    by (simp add: count_events_def quiet0)
  have third: "interact_with_model E messages query False
                 = (fst (interact_with_model E
                          (messages @ [assistant_message (full_response_of chunks),
                                       user_message (python_execution_result result)])
                          (python_execution_result result) True),
                    Call messages query False # t0
                    @ [Chat current, Extract (full_response_of chunks)]
                    @ snd (execute_python_code E code)
                    @ [Call (messages @ [assistant_message (full_response_of chunks),
                                         user_message (python_execution_result result)])
                         (python_execution_result result) True,
                       Chat (messages @ [assistant_message (full_response_of chunks),
                                         user_message (python_execution_result result)])])
               \<and> count_events is_bash (snd (interact_with_model E messages query False)) = 0"
    if r: "fst (execute_python_code E code) = Inr result" "result \<noteq> []" for result
  proof -
    have ex: "execute_python_code E code = (Inr result, snd (execute_python_code E code))"
      using r(1) by (metis prod.collapse)
    have run: "interact_with_model E messages query False
                 = (fst (interact_with_model E
                          (messages @ [assistant_message (full_response_of chunks),
                                       user_message (python_execution_result result)])
                          (python_execution_result result) True),
                    Call messages query False # t0
                    @ [Chat current, Extract (full_response_of chunks)]
                    @ snd (execute_python_code E code)
                    @ [Call (messages @ [assistant_message (full_response_of chunks),
                                         user_message (python_execution_result result)])
                         (python_execution_result result) True,
                       Chat (messages @ [assistant_message (full_response_of chunks),
                                         user_message (python_execution_result result)])])"
      using interact_python_recursion [OF assms ex r(2)]
      by (simp add: new_messages_def interact_with_model_processing_code)
    show ?thesis
      by (simp add: run count_events_def quiet0 execute_python_code_events)
  qed
  show ?thesis
    using first second third by blast
qed

theorem script_before_shell_witness:
  "take 5 (snd (interact_with_model
                  (printing ''1'' (choosing Ejecutar (answering both_blocks quiet_env)))
                  (session_start @ [user_message ''hola'']) ''hola'' False))
     = [Call (session_start @ [user_message ''hola'']) ''hola'' False, Retrieve ''hola'',
        Chat (session_start @ [user_message ''hola'']), Extract both_blocks,
        AskPython ''print(1)'']
   \<and> count_events is_bash
         (snd (interact_with_model
                 (printing ''1'' (choosing Ejecutar (answering both_blocks quiet_env)))
                 (session_start @ [user_message ''hola'']) ''hola'' False)) = 0"
proof -
  let ?E = "printing ''1'' (choosing Ejecutar (answering both_blocks quiet_env))"
  have ext: "extract_code_blocks (full_response_of [Some both_blocks]) = (''ls'' # [], ''print(1)'' # [])"
    by (simp add: full_response_single extract_both_sample)
  have ex: "fst (execute_python_code ?E ''print(1)'') = Inr ''1'' \<and> ''1'' \<noteq> []"
    by (simp add: execute_python_code_def printing_def choosing_def answering_def quiet_env_def)
  note main = script_before_shell [OF sample_current sample_chat ext]
  have a: "take 5 (snd (interact_with_model ?E (session_start @ [user_message ''hola''])
                     ''hola'' False))
     = [Call (session_start @ [user_message ''hola'']) ''hola'' False, Retrieve ''hola'',
        Chat (session_start @ [user_message ''hola'']), Extract both_blocks,
        AskPython ''print(1)'']"
    using main by (simp add: full_response_single)
  have b: "count_events is_bash
         (snd (interact_with_model ?E (session_start @ [user_message ''hola'']) ''hola'' False)) = 0"
    using main ex by blast
  show ?thesis using a b by blast
qed

section \<open>Cancel and save at the script prompt\<close>

text \<open>
  Two runs on the sample session: the user saves the script of a response with a script
  block only; the user cancels the script of a response with both blocks and then
  confirms the command.
\<close>

lemma execute_python_code_save:
  "ask_choice E code = Inr Guardar \<Longrightarrow> ask_filename E code = Inr filename \<Longrightarrow>
   execute_python_code E code =
     (Inr (case write_file E filename code of
             None \<Rightarrow> ''C'' @ [CHR 0xF3] @ ''digo guardado en '' @ filename
           | Some e \<Rightarrow> ''Error al guardar el archivo: '' @ e),
      [AskPython code, SaveFile filename code])"
  by (simp add: execute_python_code_def split: option.splits)

lemma sample_save:
  "interact_with_model (choosing Guardar (answering (fenced ''python'' ''print(1)'') quiet_env))
     (session_start @ [user_message ''hola'']) ''hola'' False
   = (Inr (session_start @ [user_message ''hola'',
             assistant_message (fenced ''python'' ''print(1)''),
             user_message (python_execution_result
                (''C'' @ [CHR 0xF3] @ ''digo guardado en script.py'')),
             assistant_message (fenced ''python'' ''print(1)'')]),
      [Call (session_start @ [user_message ''hola'']) ''hola'' False, Retrieve ''hola'',
       Chat (session_start @ [user_message ''hola'']),
       Extract (fenced ''python'' ''print(1)''),
       AskPython ''print(1)'', SaveFile ''script.py'' ''print(1)'',
       Call (session_start @ [user_message ''hola'',
               assistant_message (fenced ''python'' ''print(1)''),
               user_message (python_execution_result
                  (''C'' @ [CHR 0xF3] @ ''digo guardado en script.py''))])
         (python_execution_result (''C'' @ [CHR 0xF3] @ ''digo guardado en script.py'')) True,
       Chat (session_start @ [user_message ''hola'',
               assistant_message (fenced ''python'' ''print(1)''),
               user_message (python_execution_result
                  (''C'' @ [CHR 0xF3] @ ''digo guardado en script.py''))])])"
  by (simp add: interact_with_model_top current_messages_def is_system_command_def
      system_commands_def startswith_def choosing_def answering_def quiet_env_def
      full_response_single extract_python_sample execute_python_code_def new_messages_def Let_def)

lemma sample_cancel_then_shell:
  "interact_with_model
     (confirming ''a.txt'' [] (choosing Cancelar (answering both_blocks quiet_env)))
     (session_start @ [user_message ''hola'']) ''hola'' False
   = (Inr (session_start @ [user_message ''hola'', assistant_message both_blocks,
             user_message (bash_execution_result ''ls'' (Some (''a.txt'' @ [nl])) (Some [])),
             assistant_message both_blocks]),
      [Call (session_start @ [user_message ''hola'']) ''hola'' False, Retrieve ''hola'',
       Chat (session_start @ [user_message ''hola'']), Extract both_blocks,
       AskPython ''print(1)'', ConfirmBash ''ls'', RunBash ''ls'',
       Call (session_start @ [user_message ''hola'', assistant_message both_blocks,
               user_message (bash_execution_result ''ls'' (Some (''a.txt'' @ [nl])) (Some []))])
         (bash_execution_result ''ls'' (Some (''a.txt'' @ [nl])) (Some [])) True,
       Chat (session_start @ [user_message ''hola'', assistant_message both_blocks,
               user_message (bash_execution_result ''ls'' (Some (''a.txt'' @ [nl])) (Some []))])])"
  by (simp add: interact_with_model_top current_messages_def is_system_command_def
      system_commands_def startswith_def choosing_def answering_def confirming_def quiet_env_def
      full_response_single extract_both_sample execute_python_code_def new_messages_def
      execute_bash_command_def clean_bash_command_def strip_def isspace_def ensure_newline_def
      endswith_def nl_def Let_def)

lemma current_messages_no_execution:
  "filter is_execution (snd (current_messages E m q pc)) = []"
  by (simp add: current_messages_def Let_def split: list.splits)

text \<open>
  Claim C3, as stated, fails. After save the executor returns the confirmation text,
  which is not empty, so the engine recurses: the result is not the working history,
  and the engine is entered twice. After cancel the script returns the empty text and
  the code goes on to the shell block: here the command is confirmed and run, and the
  engine recurses on its output.
\<close>

theorem cancel_or_save_final_counterexample:
  "ask_choice (choosing Guardar (answering (fenced ''python'' ''print(1)'') quiet_env))
       ''print(1)'' = Inr Guardar
   \<and> fst (interact_with_model
            (choosing Guardar (answering (fenced ''python'' ''print(1)'') quiet_env))
            (session_start @ [user_message ''hola'']) ''hola'' False)
       \<noteq> Inr (session_start @ [user_message ''hola'',
                 assistant_message (fenced ''python'' ''print(1)'')])
   \<and> count_events is_call
         (snd (interact_with_model
                 (choosing Guardar (answering (fenced ''python'' ''print(1)'') quiet_env))
                 (session_start @ [user_message ''hola'']) ''hola'' False)) = 2
   \<and> ask_choice (confirming ''a.txt'' [] (choosing Cancelar (answering both_blocks quiet_env)))
         ''print(1)'' = Inr Cancelar
   \<and> count_events is_bash
         (snd (interact_with_model
                 (confirming ''a.txt'' [] (choosing Cancelar (answering both_blocks quiet_env)))
                 (session_start @ [user_message ''hola'']) ''hola'' False)) = 2
   \<and> count_events is_call
         (snd (interact_with_model
                 (confirming ''a.txt'' [] (choosing Cancelar (answering both_blocks quiet_env)))
                 (session_start @ [user_message ''hola'']) ''hola'' False)) = 2"
proof -
  have save: "ask_choice (choosing Guardar (answering (fenced ''python'' ''print(1)'') quiet_env))
       ''print(1)'' = Inr Guardar"
    by (simp add: choosing_def answering_def quiet_env_def)
  have cancel: "ask_choice
        (confirming ''a.txt'' [] (choosing Cancelar (answering both_blocks quiet_env)))
        ''print(1)'' = Inr Cancelar"
    by (simp add: choosing_def confirming_def answering_def quiet_env_def)
  show ?thesis
    unfolding sample_save sample_cancel_then_shell
    using save cancel by (simp add: count_events_def)
qed

text \<open>
  Claim C3, amended. For a response whose extraction yields a script block: if the user
  chooses cancel, and the response yields no shell block or the user declines the shell
  command, the turn is final: the engine returns the working history as it is, it is
  entered once, the model is called once, and nothing is saved or run. If the user
  chooses save, the executor returns a non-empty text (the confirmation, or the error
  of the write), and the engine recurses once on it, as on any non-empty result.
\<close>

theorem cancel_is_final_save_recurses:
  assumes "current_messages E messages query False = (Inr current, t0)"
    and "ollama_chat E current = ChatStream chunks None"
    and "extract_code_blocks (full_response_of chunks) = (bash_blocks, code # ps)"
  shows "(ask_choice E code = Inr Cancelar
          \<and> (bash_blocks = []
               \<or> (\<exists>command bs. bash_blocks = command # bs
                     \<and> confirm_ask E (clean_bash_command command) = Inr False))
          \<longrightarrow> fst (interact_with_model E messages query False)
                = Inr (current @ [assistant_message (full_response_of chunks)])
              \<and> count_events is_call (snd (interact_with_model E messages query False)) = 1
              \<and> count_events is_chat (snd (interact_with_model E messages query False)) = 1
              \<and> count_events is_execution (snd (interact_with_model E messages query False)) = 0)
       \<and> (ask_choice E code = Inr Guardar \<and> ask_filename E code = Inr filename
          \<longrightarrow> (let result = (case write_file E filename code of
                                None \<Rightarrow> ''C'' @ [CHR 0xF3] @ ''digo guardado en '' @ filename
                              | Some e \<Rightarrow> ''Error al guardar el archivo: '' @ e);
                    execution_result = python_execution_result result;
                    new_history = messages @ [assistant_message (full_response_of chunks),
                                              user_message execution_result]
                in result \<noteq> []
                   \<and> interact_with_model E messages query False
                       = (fst (interact_with_model E new_history execution_result True),
                          Call messages query False # t0
                          @ [Chat current, Extract (full_response_of chunks),
                             AskPython code, SaveFile filename code,
                             Call new_history execution_result True, Chat new_history])))"
proof -
  have t0: "snd (current_messages E messages query False) = t0"
    using assms(1) by simp
  have quiet0: "filter is_call t0 = []" "filter is_chat t0 = []" "filter is_execution t0 = []"
    using current_messages_events(1,2) [of E messages query False]
      current_messages_no_execution [of E messages query False]
    by (simp_all add: t0)
  have cancel: "fst (interact_with_model E messages query False)
                = Inr (current @ [assistant_message (full_response_of chunks)])
              \<and> count_events is_call (snd (interact_with_model E messages query False)) = 1
              \<and> count_events is_chat (snd (interact_with_model E messages query False)) = 1
              \<and> count_events is_execution (snd (interact_with_model E messages query False)) = 0"
    if c: "ask_choice E code = Inr Cancelar"
      and b: "bash_blocks = []
               \<or> (\<exists>command bs. bash_blocks = command # bs
                     \<and> confirm_ask E (clean_bash_command command) = Inr False)"
  proof -
    have py: "python_blocks = [] \<and> [AskPython code] = []
         \<or> (\<exists>code' ps'. python_blocks = code' # ps'
               \<and> execute_python_code E code' = (Inr [], [AskPython code]))"
      if "python_blocks = code # ps" for python_blocks
      using that execute_python_code_cancel [OF c] by simp
    show ?thesis
    proof (cases bash_blocks)
      case Nil
      have run: "interact_with_model E messages query False =
           (Inr (current @ [assistant_message (full_response_of chunks)]),
            Call messages query False # t0 @ [Chat current, Extract (full_response_of chunks)]
            @ [AskPython code] @ [])"
        using interact_final [OF assms(1,2,3), of "[AskPython code]" "[]"]
          py [OF refl] Nil by simp
      show ?thesis
        by (simp add: run count_events_def quiet0)
    next
      case (Cons command bs)
      then have d: "confirm_ask E (clean_bash_command command) = Inr False"
        using b by simp
      have run: "interact_with_model E messages query False =
           (Inr (current @ [assistant_message (full_response_of chunks)]),
            Call messages query False # t0 @ [Chat current, Extract (full_response_of chunks)]
            @ [AskPython code] @ [ConfirmBash (clean_bash_command command)])"
        using interact_final [OF assms(1,2,3), of "[AskPython code]"
            "[ConfirmBash (clean_bash_command command)]"]
          py [OF refl] Cons execute_bash_command_declined [OF d] by simp
      show ?thesis
        by (simp add: run count_events_def quiet0)
    qed
  qed
  have save: "(let result = (case write_file E filename code of
                                None \<Rightarrow> ''C'' @ [CHR 0xF3] @ ''digo guardado en '' @ filename
                              | Some e \<Rightarrow> ''Error al guardar el archivo: '' @ e);
                    execution_result = python_execution_result result;
                    new_history = messages @ [assistant_message (full_response_of chunks),
                                              user_message execution_result]
                in result \<noteq> []
                   \<and> interact_with_model E messages query False
                       = (fst (interact_with_model E new_history execution_result True),
                          Call messages query False # t0
                          @ [Chat current, Extract (full_response_of chunks),
                             AskPython code, SaveFile filename code,
                             Call new_history execution_result True, Chat new_history]))"
    if g: "ask_choice E code = Inr Guardar" and f: "ask_filename E code = Inr filename"
  proof -
    define result where "result = (case write_file E filename code of
                                None \<Rightarrow> ''C'' @ [CHR 0xF3] @ ''digo guardado en '' @ filename
                              | Some e \<Rightarrow> ''Error al guardar el archivo: '' @ e)"
    have ne: "result \<noteq> []"
      by (simp add: result_def split: option.splits)
    have ex: "execute_python_code E code = (Inr result, [AskPython code, SaveFile filename code])"
      using execute_python_code_save [OF g f] by (simp add: result_def)
    have "interact_with_model E messages query False
            = (fst (interact_with_model E
                     (messages @ [assistant_message (full_response_of chunks),
                                  user_message (python_execution_result result)])
                     (python_execution_result result) True),
               Call messages query False # t0
               @ [Chat current, Extract (full_response_of chunks),
                  AskPython code, SaveFile filename code,
                  Call (messages @ [assistant_message (full_response_of chunks),
                                  user_message (python_execution_result result)])
                    (python_execution_result result) True,
                  Chat (messages @ [assistant_message (full_response_of chunks),
                                  user_message (python_execution_result result)])])"
      using interact_python_recursion [OF assms ex ne]
      by (simp add: new_messages_def interact_with_model_processing_code)
    then show ?thesis
      using ne by (simp add: result_def Let_def)
  qed
  show ?thesis
    using cancel save by blast
qed

theorem cancel_is_final_save_recurses_witness:
  "fst (interact_with_model
          (printing [] (choosing Cancelar (answering (fenced ''python'' ''print(1)'') quiet_env)))
          (session_start @ [user_message ''hola'']) ''hola'' False)
     = Inr (session_start @ [user_message ''hola'',
              assistant_message (fenced ''python'' ''print(1)'')])
   \<and> count_events is_call
        (snd (interact_with_model
          (printing [] (choosing Cancelar (answering (fenced ''python'' ''print(1)'') quiet_env)))
          (session_start @ [user_message ''hola'']) ''hola'' False)) = 1"
proof -
  let ?E = "printing [] (choosing Cancelar (answering (fenced ''python'' ''print(1)'') quiet_env))"
  have ext: "extract_code_blocks (full_response_of [Some (fenced ''python'' ''print(1)'')])
               = ([], ''print(1)'' # [])"
    by (simp add: full_response_single extract_python_sample)
  have c: "ask_choice ?E ''print(1)'' = Inr Cancelar"
    by (simp add: printing_def choosing_def answering_def quiet_env_def)
  show ?thesis
    using cancel_is_final_save_recurses [OF sample_current sample_chat ext] c
    by (simp add: full_response_single)
qed

section \<open>The augmented system message in the returned history\<close>

text \<open>
  Claim C2 says that augmentation is ephemeral: after a non-command query with a
  non-empty retrieved context, whose turn ends without recursion, the returned history
  has the original system message at index 0. The comments of the code say the same
  (the copy is made so as not to change the system message permanently, and the context
  is added for this interaction), and the other exits of the function, the transport
  failure and the two recursive calls, build their result from \<open>messages\<close>. The exit
  at the end of the function returns \<open>history\<close>, which is \<open>current_messages\<close>: the
  history with the augmented message at index 0. The theorem states what the code
  returns there: the augmented message, which differs from the original one, followed
  by the rest of the input history and the response. The session driver stores that
  result as the session history.
\<close>

theorem augmented_system_message_is_returned:
  assumes "\<not> is_system_command query"
    and "get_relevant_context E query = context" and "context \<noteq> []"
    and "messages = m # ms"
    and "augmented = system_message (content m @ context_header @ context @ context_footer)"
    and "ollama_chat E (augmented # ms) = ChatStream chunks None"
    and "extract_code_blocks (full_response_of chunks) = (bash_blocks, python_blocks)"
    and "python_blocks = [] \<and> tp = []
         \<or> (\<exists>code ps. python_blocks = code # ps \<and> execute_python_code E code = (Inr [], tp))"
    and "bash_blocks = [] \<and> tb = []
         \<or> (\<exists>command bs. bash_blocks = command # bs
               \<and> execute_bash_command E command = ((None, None), tb))"
  shows "fst (interact_with_model E messages query False)
           = Inr (augmented # ms @ [assistant_message (full_response_of chunks)])
         \<and> augmented \<noteq> m
         \<and> content augmented \<noteq> content m
         \<and> count_events is_call (snd (interact_with_model E messages query False)) = 1"
proof -
  have cur: "current_messages E messages query False = (Inr (augmented # ms), [Retrieve query])"
    using assms(1-5) by (simp add: current_messages_def)
  have run: "interact_with_model E messages query False =
           (Inr ((augmented # ms) @ [assistant_message (full_response_of chunks)]),
            Call messages query False # [Retrieve query]
            @ [Chat (augmented # ms), Extract (full_response_of chunks)] @ tp @ tb)"
    by (rule interact_final [OF cur assms(6) assms(7) assms(8) assms(9)])
  have differs: "content augmented \<noteq> content m"
    by (simp add: assms(5) system_message_def context_header_def)
  have quietp: "filter is_call tp = []"
  proof (cases "python_blocks = []")
    case True
    then show ?thesis using assms(8) by auto
  next
    case False
    then obtain code where "execute_python_code E code = (Inr [], tp)"
      using assms(8) by blast
    then have "snd (execute_python_code E code) = tp" by simp
    then show ?thesis
      using execute_python_code_events(1) [of E code] by simp
  qed
  have quietb: "filter is_call tb = []"
  proof (cases "bash_blocks = []")
    case True
    then show ?thesis using assms(9) by auto
  next
    case False
    then obtain command where "execute_bash_command E command = ((None, None), tb)"
      using assms(9) by blast
    then have "snd (execute_bash_command E command) = tb" by simp
    then show ?thesis
      using execute_bash_command_events(1) [of E command] by simp
  qed
  show ?thesis
    using differs by (auto simp add: run count_events_def quietp quietb)
qed

theorem augmented_system_message_is_returned_witness:
  "run_query (answering ''Hola.'' (retrieving ''ctx'' quiet_env)) session_start ''hola''
     = (Inr [system_message (''Eres un asistente AI'' @ context_header @ ''ctx'' @ context_footer),
             user_message ''hola'', assistant_message ''Hola.''],
        snd (run_query (answering ''Hola.'' (retrieving ''ctx'' quiet_env)) session_start ''hola''))
   \<and> system_message (''Eres un asistente AI'' @ context_header @ ''ctx'' @ context_footer)
       \<noteq> system_message ''Eres un asistente AI''"
proof -
  let ?E = "answering ''Hola.'' (retrieving ''ctx'' quiet_env)"
  have a1: "\<not> is_system_command ''hola''"
    by (simp add: is_system_command_def system_commands_def startswith_def)
  have a2: "get_relevant_context ?E ''hola'' = ''ctx''"
    by (simp add: answering_def retrieving_def quiet_env_def)
  have a4: "session_start @ [user_message ''hola'']
              = system_message ''Eres un asistente AI'' # [user_message ''hola'']"
    by (simp add: session_start_def)
  have a5: "system_message (''Eres un asistente AI'' @ context_header @ ''ctx'' @ context_footer)
      = system_message (content (system_message ''Eres un asistente AI'')
                        @ context_header @ ''ctx'' @ context_footer)"
    by (simp add: system_message_def)
  have a6: "ollama_chat ?E
      (system_message (''Eres un asistente AI'' @ context_header @ ''ctx'' @ context_footer)
       # [user_message ''hola'']) = ChatStream [Some ''Hola.''] None"
    by (simp add: answering_def retrieving_def quiet_env_def)
  have a7: "extract_code_blocks (full_response_of [Some ''Hola.'']) = ([], [])"
    by (simp add: full_response_single extract_plain_sample)
  have a8: "([]::string list) = [] \<and> ([]::event list) = []
         \<or> (\<exists>code ps. ([]::string list) = code # ps
               \<and> execute_python_code ?E code = (Inr [], []))"
    by simp
  have a9: "([]::string list) = [] \<and> ([]::event list) = []
         \<or> (\<exists>command bs. ([]::string list) = command # bs
               \<and> execute_bash_command ?E command = ((None, None), []))"
    by simp
  have "fst (interact_with_model ?E (session_start @ [user_message ''hola'']) ''hola'' False)
      = Inr (system_message (''Eres un asistente AI'' @ context_header @ ''ctx'' @ context_footer)
             # [user_message ''hola''] @ [assistant_message (full_response_of [Some ''Hola.''])])
    \<and> system_message (''Eres un asistente AI'' @ context_header @ ''ctx'' @ context_footer)
        \<noteq> system_message ''Eres un asistente AI''"
    using augmented_system_message_is_returned [OF a1 a2 _ a4 a5 a6 a7 a8 a9] by simp
  then show ?thesis
    by (simp add: run_query_def full_response_single prod_eq_iff)
qed

section \<open>Lines of a block and lines of the stripped block\<close>

text \<open>
  The extractor strips the block before it splits it into lines, and strips every line
  again. Stripping the block only removes blank lines at both ends and whitespace at
  the ends of the first and the last remaining line, so the command found is the same
  as for the lines of the block itself.
\<close>

lemma split_nl_not_Nil: "split_nl s \<noteq> []"
  by (induction s) (auto split: list.splits)

lemma split_nl_snoc:
  "split_nl (s @ [c]) =
     (if c = nl then split_nl s @ [[]]
      else butlast (split_nl s) @ [last (split_nl s) @ [c]])"
proof (induction s)
  case Nil
  then show ?case by simp
next
  case (Cons a s)
  obtain l ls where sp: "split_nl s = l # ls"
    using split_nl_not_Nil [of s] by (cases "split_nl s") auto
  show ?case
    using Cons sp by (auto split: list.splits)
qed

lemma strip_Cons_space: "isspace c \<Longrightarrow> strip (c # l) = strip l"
  by (simp add: strip_def)

lemma strip_snoc_space:
  assumes "isspace c"
  shows "strip (l @ [c]) = strip l"
proof (cases "\<forall>x\<in>set l. isspace x")
  case True
  then have b: "dropWhile isspace l = []" by (induction l) auto
  have a: "dropWhile isspace (l @ [c]) = []"
    using assms True by (induction l) auto
  show ?thesis
    unfolding strip_def a b by simp
next
  case False
  then show ?thesis
    using assms by (auto simp add: strip_def dropWhile_append)
qed

lemma strip_Nil: "strip [] = []"
  by (simp add: strip_def)

lemma isspace_nl: "isspace nl"
  by (simp add: isspace_def nl_def)

lemma lines_lstrip:
  "\<exists>i. map strip (split_nl b) = replicate i [] @ map strip (split_nl (dropWhile isspace b))"
proof (induction b)
  case Nil
  show ?case by (rule exI [of _ 0]) simp
next
  case (Cons c cs)
  show ?case
  proof (cases "isspace c")
    case False
    then show ?thesis by (intro exI [of _ 0]) simp
  next
    case True
    from Cons obtain i where i:
      "map strip (split_nl cs) = replicate i [] @ map strip (split_nl (dropWhile isspace cs))"
      by blast
    obtain l ls where sp: "split_nl cs = l # ls"
      using split_nl_not_Nil [of cs] by (cases "split_nl cs") auto
    show ?thesis
    proof (cases "c = nl")
      case True
      then show ?thesis
        using i \<open>isspace c\<close> by (intro exI [of _ "Suc i"]) (simp add: strip_Nil)
    next
      case False
      have "map strip (split_nl (c # cs)) = map strip (split_nl cs)"
        using False sp True by (simp add: strip_Cons_space)
      then show ?thesis
        using i True by (intro exI [of _ i]) simp
    qed
  qed
qed

lemma lines_rstrip:
  "\<exists>j. map strip (split_nl b)
        = map strip (split_nl (rev (dropWhile isspace (rev b)))) @ replicate j []"
proof (induction b rule: rev_induct)
  case Nil
  show ?case by (rule exI [of _ 0]) simp
next
  case (snoc c cs)
  show ?case
  proof (cases "isspace c")
    case False
    then show ?thesis by (intro exI [of _ 0]) simp
  next
    case True
    from snoc obtain j where j:
      "map strip (split_nl cs)
         = map strip (split_nl (rev (dropWhile isspace (rev cs)))) @ replicate j []"
      by blast
    have r: "rev (dropWhile isspace (rev (cs @ [c]))) = rev (dropWhile isspace (rev cs))"
      using True by simp
    show ?thesis
    proof (cases "c = nl")
      case True
      have "map strip (split_nl (cs @ [c])) = map strip (split_nl cs) @ [[]]"
        using True by (simp add: split_nl_snoc strip_Nil)
      then have "map strip (split_nl (cs @ [c]))
         = map strip (split_nl (rev (dropWhile isspace (rev cs)))) @ replicate (Suc j) []"
        using j by (simp add: replicate_append_same)
      then show ?thesis
        unfolding r by blast
    next
      case False
      have "map strip (split_nl (cs @ [c]))
              = map strip (butlast (split_nl cs)) @ [strip (last (split_nl cs) @ [c])]"
        using False by (simp add: split_nl_snoc)
      also have "\<dots> = map strip (butlast (split_nl cs)) @ [strip (last (split_nl cs))]"
        using True by (simp add: strip_snoc_space)
      also have "\<dots> = map strip (butlast (split_nl cs) @ [last (split_nl cs)])"
        by simp
      also have "\<dots> = map strip (split_nl cs)"
        using split_nl_not_Nil [of cs] by simp
      finally have "map strip (split_nl (cs @ [c]))
         = map strip (split_nl (rev (dropWhile isspace (rev cs)))) @ replicate j []"
        using j by simp
      then show ?thesis
        unfolding r by (rule exI [of _ j])
    qed
  qed
qed

lemma lines_strip:
  "\<exists>i j. map strip (split_nl b) = replicate i [] @ map strip (split_nl (strip b)) @ replicate j []"
proof -
  obtain i where i:
    "map strip (split_nl b) = replicate i [] @ map strip (split_nl (dropWhile isspace b))"
    using lines_lstrip by blast
  obtain j where j: "map strip (split_nl (dropWhile isspace b))
        = map strip (split_nl (rev (dropWhile isspace (rev (dropWhile isspace b))))) @ replicate j []"
    using lines_rstrip by blast
  show ?thesis
    using i j unfolding strip_def by (intro exI [of _ i] exI [of _ j]) simp
qed

lemma clean_command_cong:
  "map strip ls = map strip ls' \<Longrightarrow> clean_command ls = clean_command ls'"
proof (induction ls arbitrary: ls')
  case Nil
  then show ?case by simp
next
  case (Cons l ls)
  then obtain l' ls'' where "ls' = l' # ls''" "strip l = strip l'" "map strip ls = map strip ls''"
    by (cases ls') auto
  then show ?case
    using Cons.IH [of ls''] by (simp add: Let_def)
qed

lemma clean_command_skip_front: "clean_command (replicate i [] @ ls) = clean_command ls"
  by (induction i) (simp_all add: strip_Nil)

lemma clean_command_skip_back: "clean_command (ls @ replicate j []) = clean_command ls"
proof (induction ls)
  case Nil
  show ?case using clean_command_skip_front [of j "[]"] by simp
next
  case (Cons l ls)
  then show ?case by (simp add: Let_def)
qed

lemma clean_command_strip_block:
  "clean_command (split_nl (strip b)) = clean_command (split_nl b)"
proof -
  obtain i j where
    "map strip (split_nl b) = replicate i [] @ map strip (split_nl (strip b)) @ replicate j []"
    using lines_strip by blast
  then have "map strip (split_nl b)
      = map strip (replicate i [] @ split_nl (strip b) @ replicate j [])"
    by (simp add: strip_Nil)
  then have "clean_command (split_nl b)
      = clean_command (replicate i [] @ split_nl (strip b) @ replicate j [])"
    by (rule clean_command_cong)
  then show ?thesis
    using clean_command_skip_front [of i "split_nl (strip b) @ replicate j []"]
      clean_command_skip_back [of "split_nl (strip b)" j]
    by simp
qed

lemma clean_command_first_actionable:
  "clean_command ls = first_actionable_line ls"
  by (induction ls)
     (auto simp add: first_actionable_line_def actionable_def is_blank_def is_comment_def
        strip_prompt_def Let_def)

lemma first_actionable_nonempty: "first_actionable_line ls = Some c \<Longrightarrow> c \<noteq> []"
  by (auto simp add: first_actionable_line_def actionable_def find_Some_iff)

lemma first_block_cases: "first_block ps text = [] \<or> (\<exists>b. first_block ps text = [b])"
  by (induction ps) (auto split: option.splits)

lemma clean_command_none:
  "\<forall>l\<in>set ls. strip l = [] \<or> startswith (strip l) ''#'' \<Longrightarrow> clean_command ls = None"
  by (induction ls) (simp_all add: Let_def)

section \<open>Shell block normalisation\<close>

text \<open>
  Claim C7, as stated, fails on a block whose first line that is neither blank nor a
  comment is a bare prompt marker: that line with the marker stripped is empty, and the
  extractor goes on to the next line and returns it.
\<close>

theorem first_line_counterexample:
  "first_block bash_patterns bare_prompt_block = [''$'' @ [nl] @ ''ls'' @ [nl]]
   \<and> first_command_line_spec (split_nl (''$'' @ [nl] @ ''ls'' @ [nl])) = Some []
   \<and> fst (extract_code_blocks bare_prompt_block) = [''ls'']"
  by code_simp

text \<open>
  Claim C7, amended. The extractor returns at most one shell block: for the first
  pattern that matches, the first line of the matched block that is neither blank nor
  a comment and is not empty once a leading prompt marker is stripped, with that marker
  stripped; no block when there is no match or no such line. For the text of the
  specification's example it returns the single block \<open>ls -la\<close>.
\<close>

theorem shell_block_normalization:
  "fst (extract_code_blocks text) =
     (case first_block bash_patterns text of
        [] \<Rightarrow> []
      | block # _ \<Rightarrow>
          (case first_actionable_line (split_nl block) of
             None \<Rightarrow> []
           | Some command \<Rightarrow> [command]))
   \<and> fst (extract_code_blocks spec_example) = [''ls -la'']"
proof -
  have general: "fst (extract_code_blocks text) =
     (case first_block bash_patterns text of
        [] \<Rightarrow> []
      | block # _ \<Rightarrow>
          (case first_actionable_line (split_nl block) of
             None \<Rightarrow> []
           | Some command \<Rightarrow> [command]))"
  proof (cases "first_block bash_patterns text")
    case Nil
    then show ?thesis
      by (simp add: extract_code_blocks_def clean_bash_blocks_def)
  next
    case (Cons block rest)
    then have one: "first_block bash_patterns text = [block]"
      using first_block_cases [of bash_patterns "text"] by auto
    have "clean_command (split_nl (strip block)) = first_actionable_line (split_nl block)"
      using clean_command_strip_block [of block]
      by (simp only: clean_command_first_actionable)
    then show ?thesis
      using one first_actionable_nonempty [of "split_nl block"]
      by (auto simp add: extract_code_blocks_def clean_bash_blocks_def split: option.splits)
  qed
  have example: "fst (extract_code_blocks spec_example) = [''ls -la'']"
    by code_simp
  show ?thesis
    using general example by blast
qed

theorem shell_block_normalization_witness:
  "fst (extract_code_blocks bare_prompt_block) = [''ls'']
   \<and> first_actionable_line (split_nl (''$'' @ [nl] @ ''ls'' @ [nl])) = Some ''ls''"
proof -
  have b: "first_block bash_patterns bare_prompt_block = [''$'' @ [nl] @ ''ls'' @ [nl]]"
    by code_simp
  have a: "first_actionable_line (split_nl (''$'' @ [nl] @ ''ls'' @ [nl])) = Some ''ls''"
    by code_simp
  show ?thesis
    using shell_block_normalization [of bare_prompt_block] a by (simp add: b)
qed

section \<open>Blocks without a command\<close>

text \<open>
  Claim C10. When every line of the matched shell block is blank or a comment, the
  extractor returns no shell block; and a turn whose response is that text makes no
  call of the shell executor, whatever the environment.
\<close>

theorem comment_only_block_yields_no_command:
  assumes "first_block bash_patterns text = [block]"
    and "\<forall>l\<in>set (split_nl block). strip l = [] \<or> startswith (strip l) ''#''"
  shows "fst (extract_code_blocks text) = []
         \<and> (current_messages E messages query processing_code = (Inr current, t0)
              \<and> ollama_chat E current = ChatStream chunks None
              \<and> full_response_of chunks = text
            \<longrightarrow> count_events is_bash
                  (snd (interact_with_model E messages query processing_code)) = 0)"
proof -
  have "clean_command (split_nl (strip block)) = None"
    using clean_command_none [OF assms(2)] by (simp add: clean_command_strip_block)
  then have none: "fst (extract_code_blocks text) = []"
    using assms(1) by (simp add: extract_code_blocks_def clean_bash_blocks_def)
  have quiet: "count_events is_bash
                  (snd (interact_with_model E messages query processing_code)) = 0"
    if h: "current_messages E messages query processing_code = (Inr current, t0)"
      "ollama_chat E current = ChatStream chunks None"
      "full_response_of chunks = text"
  proof (cases processing_code)
    case True
    then show ?thesis
      by (simp add: interact_with_model_processing_code count_events_def)
  next
    case False
    have t0: "snd (current_messages E messages query False) = t0"
      using h(1) False by simp
    have quiet0: "filter is_bash t0 = []"
      using current_messages_events(3) [of E messages query False] by (simp add: t0)
    obtain python_blocks where ext: "extract_code_blocks text = ([], python_blocks)"
      using none by (cases "extract_code_blocks text") auto
    have "count_events is_bash (snd (interact_with_model E messages query False)) = 0"
      using h False ext quiet0
      by (simp add: interact_with_model_top count_events_def Let_def case_prod_unfold
          execute_python_code_events
          split: sum.splits list.splits)
    then show ?thesis
      using False by simp
  qed
  show ?thesis
    using none quiet by blast
qed

theorem comment_only_block_yields_no_command_witness:
  "fst (extract_code_blocks comment_only_block) = []
   \<and> count_events is_bash
        (snd (interact_with_model (confirming ''x'' [] (answering comment_only_block quiet_env))
               (session_start @ [user_message ''hola'']) ''hola'' False)) = 0"
proof -
  let ?E = "confirming ''x'' [] (answering comment_only_block quiet_env)"
  have b: "first_block bash_patterns comment_only_block = [''# nada que ejecutar'' @ [nl, nl]]"
    by code_simp
  have l: "\<forall>l\<in>set (split_nl (''# nada que ejecutar'' @ [nl, nl])).
             strip l = [] \<or> startswith (strip l) ''#''"
    by code_simp
  have cur: "current_messages ?E (session_start @ [user_message ''hola'']) ''hola'' False
               = (Inr (session_start @ [user_message ''hola'']), [Retrieve ''hola''])"
    by (simp add: current_messages_def is_system_command_def system_commands_def startswith_def
        confirming_def answering_def quiet_env_def)
  have chat: "ollama_chat ?E (session_start @ [user_message ''hola''])
                = ChatStream [Some comment_only_block] None"
    by (simp add: confirming_def answering_def quiet_env_def)
  show ?thesis
    using comment_only_block_yields_no_command [OF b l, of ?E
        "session_start @ [user_message ''hola'']" "''hola''" False
        "session_start @ [user_message ''hola'']" "[Retrieve ''hola'']"
        "[Some comment_only_block]"] cur chat
    by (simp add: full_response_single)
qed

end
